theory Spec2Isabelle
  imports Main "HOL-Library.Multiset"
begin

section \<open>The captured value store of use-captured-state\<close>

subsection \<open>JavaScript objects used as dictionaries\<close>

text \<open>
  The package keeps the values of form fields in an object literal that it uses as a
  dictionary.  A property key is a string (what JavaScript makes of any key expression).
  A stored value is a primitive of an arbitrary type \<open>'v\<close>, \<^verbatim>\<open>null\<close>, or a data object: an
  object literal with the listed own properties, all of them writable enumerable data
  properties, and \<^verbatim>\<open>Object.prototype\<close> as its prototype.  The objects the package creates
  are as it makes them: extensible, with writable, enumerable and configurable own
  properties.
\<close>

type_synonym key = string

datatype 'v jsval = Prim 'v | Null | Obj "(key \<times> 'v jsval) list"

text \<open>
  The prototype of an object of the model: \<^verbatim>\<open>Object.prototype\<close>, as for every object
  literal; none, as after \<^verbatim>\<open>Object.create(null)\<close>; or a data object, itself with
  \<^verbatim>\<open>Object.prototype\<close> as prototype.
\<close>

datatype 'v prototype = Object_prototype | Null_prototype | Data_object "(key \<times> 'v jsval) list"

text \<open>
  The properties of \<^verbatim>\<open>Object.prototype\<close>: functions held in writable data properties that
  are not enumerable, and the accessor \<^verbatim>\<open>__proto__\<close>.
\<close>

definition Object_prototype_names :: "key list" where
  "Object_prototype_names =
     [''constructor'', ''hasOwnProperty'', ''isPrototypeOf'', ''propertyIsEnumerable'',
      ''toLocaleString'', ''toString'', ''valueOf'', ''__defineGetter__'',
      ''__defineSetter__'', ''__lookupGetter__'', ''__lookupSetter__'']"

text \<open>
  Where the lookup of a key ends: at an own property, at a property of the data object
  that is the prototype, at a function of \<^verbatim>\<open>Object.prototype\<close>, at the accessor
  \<^verbatim>\<open>__proto__\<close>, or nowhere.
\<close>

datatype 'v found =
    Own_data "'v jsval"
  | Inherited_data "'v jsval"
  | Builtin_function
  | Proto_accessor
  | Not_found

definition find_in_Object_prototype :: "key \<Rightarrow> 'v found" where
  "find_in_Object_prototype k =
     (if k = ''__proto__'' then Proto_accessor
      else if k \<in> set Object_prototype_names then Builtin_function
      else Not_found)"

definition find_in_prototype :: "'v prototype \<Rightarrow> key \<Rightarrow> 'v found" where
  "find_in_prototype p k =
     (case p of
        Null_prototype \<Rightarrow> Not_found
      | Object_prototype \<Rightarrow> find_in_Object_prototype k
      | Data_object ps \<Rightarrow>
          (case map_of ps k of
             Some v \<Rightarrow> Inherited_data v
           | None \<Rightarrow> find_in_Object_prototype k))"

definition find_property :: "(key \<rightharpoonup> 'v jsval) \<Rightarrow> 'v prototype \<Rightarrow> key \<Rightarrow> 'v found" where
  "find_property own_props p k =
     (case own_props k of
        Some v \<Rightarrow> Own_data v
      | None \<Rightarrow> find_in_prototype p k)"

text \<open>
  The object behind \<^verbatim>\<open>values.current\<close>, created by the literal \<^verbatim>\<open>{}\<close>: its own properties
  and its prototype.
\<close>

record 'v values_object =
  own :: "key \<rightharpoonup> 'v jsval"
  proto :: "'v prototype"

definition empty_object :: "'v values_object" where
  "empty_object = \<lparr>own = Map.empty, proto = Object_prototype\<rparr>"

text \<open>\<^verbatim>\<open>key in obj\<close> looks at the object and then along its prototype chain.\<close>

definition has_property :: "'v values_object \<Rightarrow> key \<Rightarrow> bool" where
  "has_property obj k = (find_property (own obj) (proto obj) k \<noteq> Not_found)"

text \<open>
  \<^verbatim>\<open>obj[key] = value\<close>.  When the lookup ends at the accessor \<^verbatim>\<open>__proto__\<close> its setter
  runs: it replaces the prototype of \<open>obj\<close> when the value is an object or \<^verbatim>\<open>null\<close> and does
  nothing otherwise; no property is stored.  In every other case the value becomes an own
  property of \<open>obj\<close>.
\<close>

definition assign :: "key \<Rightarrow> 'v jsval \<Rightarrow> 'v values_object \<Rightarrow> 'v values_object" where
  "assign k v obj =
     (case find_property (own obj) (proto obj) k of
        Proto_accessor \<Rightarrow>
          (case v of
             Prim x \<Rightarrow> obj
           | Null \<Rightarrow> obj\<lparr>proto := Null_prototype\<rparr>
           | Obj ps \<Rightarrow> obj\<lparr>proto := Data_object ps\<rparr>)
      | Own_data w \<Rightarrow> obj\<lparr>own := (own obj)(k \<mapsto> v)\<rparr>
      | Inherited_data w \<Rightarrow> obj\<lparr>own := (own obj)(k \<mapsto> v)\<rparr>
      | Builtin_function \<Rightarrow> obj\<lparr>own := (own obj)(k \<mapsto> v)\<rparr>
      | Not_found \<Rightarrow> obj\<lparr>own := (own obj)(k \<mapsto> v)\<rparr>)"

text \<open>\<^verbatim>\<open>delete obj[key]\<close> removes an own property and leaves the prototype chain alone.\<close>

definition delete_property :: "key \<Rightarrow> 'v values_object \<Rightarrow> 'v values_object" where
  "delete_property k obj = obj\<lparr>own := (own obj)(k := None)\<rparr>"

text \<open>
  What \<^verbatim>\<open>obj[key]\<close> evaluates to: a value of the model, one of the functions of
  \<^verbatim>\<open>Object.prototype\<close>, \<^verbatim>\<open>Object.prototype\<close> itself (from the getter of \<^verbatim>\<open>__proto__\<close>), or
  \<^verbatim>\<open>undefined\<close> for a key that is not found.
\<close>

datatype 'v property_value =
    Value "'v jsval"
  | Function_object
  | Object_prototype_object
  | Missing

definition read_property :: "'v values_object \<Rightarrow> key \<Rightarrow> 'v property_value" where
  "read_property obj k =
     (case find_property (own obj) (proto obj) k of
        Own_data v \<Rightarrow> Value v
      | Inherited_data v \<Rightarrow> Value v
      | Builtin_function \<Rightarrow> Function_object
      | Proto_accessor \<Rightarrow>
          (case proto obj of
             Object_prototype \<Rightarrow> Object_prototype_object
           | Null_prototype \<Rightarrow> Value Null
           | Data_object ps \<Rightarrow> Value (Obj ps))
      | Not_found \<Rightarrow> Missing)"

text \<open>
  What a call hands back: the functions of the package either return nothing
  (\<^verbatim>\<open>undefined\<close>) or the captured values object.  Reading a property of \<^verbatim>\<open>undefined\<close> raises
  a \<^verbatim>\<open>TypeError\<close>.
\<close>

datatype 'v jsvalue = Undefined | Object "'v values_object"

datatype js_error = TypeError

definition get_property :: "'v jsvalue \<Rightarrow> key \<Rightarrow> js_error + 'v property_value" where
  "get_property x k =
     (case x of Undefined \<Rightarrow> Inl TypeError | Object obj \<Rightarrow> Inr (read_property obj k))"

text \<open>
  An object passed as an argument: its own enumerable properties in enumeration order,
  its prototype, and the keys its \<^verbatim>\<open>Symbol.iterator\<close> method yields when it has one.  An
  object literal such as \<^verbatim>\<open>{first: "A"}\<close> has \<^verbatim>\<open>Object.prototype\<close> and no iterator.
\<close>

record 'v jsobject =
  props :: "(key \<times> 'v jsval) list"
  props_proto :: "'v prototype"
  iterator :: "key list option"

definition plain :: "(key \<times> 'v jsval) list \<Rightarrow> 'v jsobject" where
  "plain kvs = \<lparr>props = kvs, props_proto = Object_prototype, iterator = None\<rparr>"

text \<open>
  \<^verbatim>\<open>for(const key in batchValues)\<close> visits the own enumerable keys and then the enumerable
  keys of the prototype chain that no own property hides; the properties of
  \<^verbatim>\<open>Object.prototype\<close> are not enumerable.
\<close>

definition for_in_keys :: "'v jsobject \<Rightarrow> key list" where
  "for_in_keys m =
     map fst (props m) @
     (case props_proto m of
        Data_object ps \<Rightarrow> filter (\<lambda>k. map_of (props m) k = None) (map fst ps)
      | Object_prototype \<Rightarrow> []
      | Null_prototype \<Rightarrow> [])"

text \<open>
  \<^verbatim>\<open>batchValues.hasOwnProperty(key)\<close> first looks \<^verbatim>\<open>hasOwnProperty\<close> up on the argument.
  What it finds is called: the function of \<^verbatim>\<open>Object.prototype\<close> answers whether the key is
  an own property; a value stored under that name, or nothing at all, cannot be called and
  a \<^verbatim>\<open>TypeError\<close> is raised.
\<close>

definition hasOwnProperty :: "'v jsobject \<Rightarrow> key \<Rightarrow> js_error + bool" where
  "hasOwnProperty m k =
     (case find_property (map_of (props m)) (props_proto m) ''hasOwnProperty'' of
        Builtin_function \<Rightarrow> Inr (map_of (props m) k \<noteq> None)
      | Own_data w \<Rightarrow> Inl TypeError
      | Inherited_data w \<Rightarrow> Inl TypeError
      | Proto_accessor \<Rightarrow> Inl TypeError
      | Not_found \<Rightarrow> Inl TypeError)"

subsection \<open>\<^verbatim>\<open>useCapturedProviderValue\<close> of \<^verbatim>\<open>src/lib/index.js\<close>\<close>

text \<open>
  The hook owns three cells: the refs \<^verbatim>\<open>values\<close> and \<^verbatim>\<open>staleState\<close>, and the state of
  \<^verbatim>\<open>useState(false)\<close>, which React holds (\<open>render_state\<close>).  \<^verbatim>\<open>setRender\<close> belongs to React:
  a call is recorded, with its argument, in \<open>setRender_calls\<close> until React processes it.
\<close>

record 'v store =
  "values" :: "'v values_object"
  staleState :: bool
  render_state :: bool
  setRender_calls :: "bool list"

definition useCapturedProviderValue_init :: "'v store" where
  "useCapturedProviderValue_init =
     \<lparr>values = empty_object, staleState = False, render_state = False,
      setRender_calls = []\<rparr>"

definition makeStale :: "'v store \<Rightarrow> 'v store" where
  "makeStale s = s\<lparr>staleState := True\<rparr>"

definition getValues :: "'v store \<Rightarrow> 'v jsvalue" where
  "getValues s = Object (values s)"

definition setRender :: "bool \<Rightarrow> 'v store \<Rightarrow> 'v store" where
  "setRender b s = s\<lparr>setRender_calls := setRender_calls s @ [b]\<rparr>"

text \<open>
  Each render of the hook creates the six closures anew.  They share the refs, and they
  see the constant \<^verbatim>\<open>render\<close> of the render that created them: the first argument of
  \<open>forceRerender\<close>.  A caller that holds on to the bundle of an earlier render calls
  \<open>forceRerender\<close> with the constant of that render.  \<^verbatim>\<open>smart\<close> is \<^verbatim>\<open>true\<close> when the caller
  leaves it out.
\<close>

definition forceRerender :: "bool \<Rightarrow> bool \<Rightarrow> 'v store \<Rightarrow> 'v jsvalue \<times> 'v store" where
  "forceRerender render smart s =
     (if smart \<and> \<not> staleState s then (Undefined, s)
      else (Undefined, setRender (\<not> render) s))"

definition updateKey :: "key \<Rightarrow> 'v jsval \<Rightarrow> 'v store \<Rightarrow> 'v jsvalue \<times> 'v store" where
  "updateKey k v s =
     (let s1 = makeStale s;
          s2 = s1\<lparr>values := assign k v (values s1)\<rparr>
      in (Undefined, s2))"

text \<open>
  The loop of \<^verbatim>\<open>batchUpdateKeys\<close>.  An exception leaves it at once, with the store as the
  earlier rounds made it.  After \<^verbatim>\<open>hasOwnProperty\<close> has answered \<^verbatim>\<open>true\<close>,
  \<^verbatim>\<open>batchValues[key]\<close> is the own property.
\<close>

fun batchUpdateKeys_loop ::
  "'v jsobject \<Rightarrow> key list \<Rightarrow> 'v store \<Rightarrow> js_error option \<times> 'v store" where
  "batchUpdateKeys_loop batchValues [] s = (None, s)"
| "batchUpdateKeys_loop batchValues (k # ks) s =
     (case hasOwnProperty batchValues k of
        Inl e \<Rightarrow> (Some e, s)
      | Inr b \<Rightarrow>
          if \<not> b then batchUpdateKeys_loop batchValues ks s
          else (case map_of (props batchValues) k of
                  None \<Rightarrow> batchUpdateKeys_loop batchValues ks s
                | Some v \<Rightarrow> batchUpdateKeys_loop batchValues ks (snd (updateKey k v s))))"

definition batchUpdateKeys ::
  "'v jsobject \<Rightarrow> 'v store \<Rightarrow> (js_error + 'v jsvalue) \<times> 'v store" where
  "batchUpdateKeys batchValues s =
     (let s1 = makeStale s
      in case batchUpdateKeys_loop batchValues (for_in_keys batchValues) s1 of
           (Some e, s2) \<Rightarrow> (Inl e, s2)
         | (None, s2) \<Rightarrow> (Inr (getValues s2), s2))"

definition removeKey :: "key \<Rightarrow> 'v store \<Rightarrow> 'v jsvalue \<times> 'v store" where
  "removeKey k s =
     (if \<not> has_property (values s) k then (Undefined, s)
      else (let s1 = makeStale s;
                s2 = s1\<lparr>values := delete_property k (values s1)\<rparr>
            in (Undefined, s2)))"

definition batchRemoveKeys :: "key list \<Rightarrow> 'v store \<Rightarrow> 'v jsvalue \<times> 'v store" where
  "batchRemoveKeys keyList s =
     (let s1 = fold (\<lambda>k s'. snd (removeKey k s')) keyList s
      in (getValues s1, s1))"

text \<open>
  React's side of \<^verbatim>\<open>useState\<close>: when it processes the recorded \<^verbatim>\<open>setRender\<close> calls the
  state becomes the last value set, and the component is rendered again exactly when
  that value differs from the state React held.  The refs are kept across renders.  The
  first component of the result tells whether a reconciliation took place.  The bundle of
  the render that follows sees \<open>render_state\<close> as its constant \<^verbatim>\<open>render\<close>.
\<close>

definition reconcile :: "'v store \<Rightarrow> bool \<times> 'v store" where
  "reconcile s =
     (case setRender_calls s of
        [] \<Rightarrow> (False, s)
      | b # bs \<Rightarrow> (last (b # bs) \<noteq> render_state s,
                   s\<lparr>render_state := last (b # bs), setRender_calls := []\<rparr>))"

text \<open>
  Sequences of store operations, with React's processing as one of the steps.  A
  \<open>ForceRerender\<close> step names the constant \<^verbatim>\<open>render\<close> of the bundle it is called through.
\<close>

datatype 'v operation =
    UpdateKey key "'v jsval"
  | BatchUpdateKeys "'v jsobject"
  | RemoveKey key
  | BatchRemoveKeys "key list"
  | ForceRerender bool bool
  | Reconcile

fun apply_operation :: "'v operation \<Rightarrow> 'v store \<Rightarrow> 'v store" where
  "apply_operation (UpdateKey k v) s = snd (updateKey k v s)"
| "apply_operation (BatchUpdateKeys m) s = snd (batchUpdateKeys m s)"
| "apply_operation (RemoveKey k) s = snd (removeKey k s)"
| "apply_operation (BatchRemoveKeys ks) s = snd (batchRemoveKeys ks s)"
| "apply_operation (ForceRerender render smart) s = snd (forceRerender render smart s)"
| "apply_operation Reconcile s = snd (reconcile s)"

definition run :: "'v operation list \<Rightarrow> 'v store \<Rightarrow> 'v store" where
  "run ops s = fold apply_operation ops s"

subsection \<open>The context and its default value\<close>

text \<open>
  The value a provider publishes is the bundle of closures returned by
  \<^verbatim>\<open>useCapturedProviderValue\<close> in the render with the constant \<open>render\<close>.  Outside every
  provider \<^verbatim>\<open>useContext\<close> yields \<^verbatim>\<open>captureDefaultValue\<close>, six arrow functions \<^verbatim>\<open>() => {}\<close>:
  each ignores its arguments, touches nothing and returns \<^verbatim>\<open>undefined\<close>.
\<close>

record 'v CaptureContextValue =
  ctx_updateKey :: "key \<Rightarrow> 'v jsval \<Rightarrow> 'v store \<Rightarrow> 'v jsvalue \<times> 'v store"
  ctx_batchUpdateKeys :: "'v jsobject \<Rightarrow> 'v store \<Rightarrow> (js_error + 'v jsvalue) \<times> 'v store"
  ctx_removeKey :: "key \<Rightarrow> 'v store \<Rightarrow> 'v jsvalue \<times> 'v store"
  ctx_batchRemoveKeys :: "key list \<Rightarrow> 'v store \<Rightarrow> 'v jsvalue \<times> 'v store"
  ctx_getValues :: "'v store \<Rightarrow> 'v jsvalue"
  ctx_forceRerender :: "bool \<Rightarrow> 'v store \<Rightarrow> 'v jsvalue \<times> 'v store"

definition captureDefaultValue :: "'v CaptureContextValue" where
  "captureDefaultValue =
     \<lparr>ctx_updateKey = (\<lambda>_ _ s. (Undefined, s)),
      ctx_batchUpdateKeys = (\<lambda>_ s. (Inr Undefined, s)),
      ctx_removeKey = (\<lambda>_ s. (Undefined, s)),
      ctx_batchRemoveKeys = (\<lambda>_ s. (Undefined, s)),
      ctx_getValues = (\<lambda>_. Undefined),
      ctx_forceRerender = (\<lambda>_ s. (Undefined, s))\<rparr>"

definition useCapturedProviderValue :: "bool \<Rightarrow> 'v CaptureContextValue" where
  "useCapturedProviderValue render =
     \<lparr>ctx_updateKey = updateKey,
      ctx_batchUpdateKeys = batchUpdateKeys,
      ctx_removeKey = removeKey,
      ctx_batchRemoveKeys = batchRemoveKeys,
      ctx_getValues = getValues,
      ctx_forceRerender = forceRerender render\<rparr>"

text \<open>
  \<^verbatim>\<open>useContext(CaptureContext)\<close>: the argument is the value of the nearest enclosing
  provider, if there is one.
\<close>

definition useCaptureContextValue ::
  "'v CaptureContextValue option \<Rightarrow> 'v CaptureContextValue" where
  "useCaptureContextValue nearest =
     (case nearest of None \<Rightarrow> captureDefaultValue | Some v \<Rightarrow> v)"

definition useCapturedValues :: "'v CaptureContextValue option \<Rightarrow> 'v store \<Rightarrow> 'v jsvalue" where
  "useCapturedValues nearest s = ctx_getValues (useCaptureContextValue nearest) s"

subsection \<open>Effects and the per-field hook \<^verbatim>\<open>useCapturedState\<close>\<close>

text \<open>
  React's side of \<^verbatim>\<open>useEffect\<close>: an effect may return a cleanup function, which React
  keeps and calls before the effect runs again and when the component unmounts.  An
  effect that returns \<^verbatim>\<open>undefined\<close> leaves nothing to call.
\<close>

type_synonym 'st cleanup = "('st \<Rightarrow> 'st) option"

definition run_cleanup :: "'st cleanup \<Rightarrow> 'st \<Rightarrow> 'st" where
  "run_cleanup c st = (case c of None \<Rightarrow> st | Some f \<Rightarrow> f st)"

text \<open>
  A mounted field of \<^verbatim>\<open>src/lib/index.js\<close>: its key, its local state \<^verbatim>\<open>capturedState\<close> and
  the cleanup React holds for its effect.  The effect
  \<^verbatim>\<open>() => { capturedProviderValue.updateKey(name, capturedState); }\<close> has a block body
  without \<^verbatim>\<open>return\<close>; \<open>current\<close> is the \<^verbatim>\<open>capturedState\<close> of the render that scheduled
  it.  A caller that leaves \<^verbatim>\<open>defaultValue\<close> out passes the empty string.
\<close>

record 'v field =
  field_name :: key
  capturedState :: "'v jsval"
  effect_cleanup :: "'v store cleanup"

definition useCapturedState_effect ::
  "'v CaptureContextValue \<Rightarrow> key \<Rightarrow> 'v jsval \<Rightarrow> 'v store \<Rightarrow> 'v store \<times> 'v store cleanup" where
  "useCapturedState_effect capturedProviderValue name current s =
     (snd (ctx_updateKey capturedProviderValue name current s), None)"

definition useCapturedState ::
  "'v CaptureContextValue option \<Rightarrow> key \<Rightarrow> 'v jsval \<Rightarrow> 'v store \<Rightarrow> 'v field \<times> 'v store" where
  "useCapturedState nearest name defaultValue s =
     (let capturedProviderValue = useCaptureContextValue nearest;
          (s', c) = useCapturedState_effect capturedProviderValue name defaultValue s
      in (\<lparr>field_name = name, capturedState = defaultValue, effect_cleanup = c\<rparr>, s'))"

text \<open>
  \<^verbatim>\<open>setCapturedState(v)\<close>: React keeps the render when the state is the same value;
  otherwise the field renders again, the dependency \<^verbatim>\<open>[capturedState]\<close> has changed, and
  the previous cleanup and then the effect run.
\<close>

definition setCapturedState ::
  "'v CaptureContextValue option \<Rightarrow> 'v jsval \<Rightarrow> 'v field \<times> 'v store \<Rightarrow> 'v field \<times> 'v store" where
  "setCapturedState nearest v fs =
     (let (f, s) = fs in
      if v = capturedState f then (f, s)
      else (let capturedProviderValue = useCaptureContextValue nearest;
                s1 = run_cleanup (effect_cleanup f) s;
                (s2, c) = useCapturedState_effect capturedProviderValue (field_name f) v s1
            in (f\<lparr>capturedState := v, effect_cleanup := c\<rparr>, s2)))"

definition unmount :: "'v field \<Rightarrow> 'v store \<Rightarrow> 'v store" where
  "unmount f s = run_cleanup (effect_cleanup f) s"

subsection \<open>The implementation on \<^verbatim>\<open>useState\<close> (\<^verbatim>\<open>src/unnamed/part_001\<close>)\<close>

text \<open>
  Here the captured values are the React state \<^verbatim>\<open>capturedValues\<close>, and every operation
  hands \<^verbatim>\<open>setCapturedValues\<close> a function from the old state to the new one.  The
  definitions are these functions.  Each starts with \<^verbatim>\<open>{ ...oldState }\<close>: a new object
  literal with the own properties of the old state.
\<close>

definition spread :: "'v values_object \<Rightarrow> 'v values_object" where
  "spread oldState = \<lparr>own = own oldState, proto = Object_prototype\<rparr>"

definition updateKey_part001 :: "key \<Rightarrow> 'v jsval \<Rightarrow> 'v values_object \<Rightarrow> 'v values_object" where
  "updateKey_part001 k v oldState = (let newValue = spread oldState in assign k v newValue)"

text \<open>
  \<^verbatim>\<open>for(const key of batchValues)\<close> asks the argument for its iterator and raises a
  \<^verbatim>\<open>TypeError\<close> when it has none.
\<close>

fun batchUpdateKeys_loop_part001 ::
  "'v jsobject \<Rightarrow> key list \<Rightarrow> 'v values_object \<Rightarrow> js_error + 'v values_object" where
  "batchUpdateKeys_loop_part001 batchValues [] newValue = Inr newValue"
| "batchUpdateKeys_loop_part001 batchValues (k # ks) newValue =
     (case hasOwnProperty batchValues k of
        Inl e \<Rightarrow> Inl e
      | Inr b \<Rightarrow>
          if \<not> b then batchUpdateKeys_loop_part001 batchValues ks newValue
          else (case map_of (props batchValues) k of
                  None \<Rightarrow> batchUpdateKeys_loop_part001 batchValues ks newValue
                | Some v \<Rightarrow> batchUpdateKeys_loop_part001 batchValues ks (assign k v newValue)))"

definition batchUpdateKeys_part001 ::
  "'v jsobject \<Rightarrow> 'v values_object \<Rightarrow> js_error + 'v values_object" where
  "batchUpdateKeys_part001 batchValues oldState =
     (let newValue = spread oldState in
      case iterator batchValues of
        None \<Rightarrow> Inl TypeError
      | Some ks \<Rightarrow> batchUpdateKeys_loop_part001 batchValues ks newValue)"

definition removeKey_part001 :: "key \<Rightarrow> 'v values_object \<Rightarrow> 'v values_object" where
  "removeKey_part001 k oldState = (let newValue = spread oldState in delete_property k newValue)"

definition batchRemoveKeys_part001 :: "key list \<Rightarrow> 'v values_object \<Rightarrow> 'v values_object" where
  "batchRemoveKeys_part001 keyList oldState =
     (let newValue = spread oldState in fold delete_property keyList newValue)"

text \<open>
  The field hook of this implementation has no local state.  Its effect
  \<^verbatim>\<open>() => { updateKey(name, defaultValue); }\<close> has the dependency list \<^verbatim>\<open>[]\<close> and runs
  once, when the field mounts; the setter it returns is \<^verbatim>\<open>val => updateKey(name, val)\<close>.
  \<open>updateKey\<close> is the function found in the context: the provider's, or the default
  \<^verbatim>\<open>() => {}\<close>.
\<close>

record 'v field_part001 =
  field_name_part001 :: key
  defaultValue_part001 :: "'v jsval"
  effect_cleanup_part001 :: "'v values_object cleanup"

definition contextUpdateKey_part001 ::
  "bool \<Rightarrow> key \<Rightarrow> 'v jsval \<Rightarrow> 'v values_object \<Rightarrow> 'v values_object" where
  "contextUpdateKey_part001 inProvider k v st =
     (if inProvider then updateKey_part001 k v st else st)"

definition useCapturedState_effect_part001 ::
  "bool \<Rightarrow> key \<Rightarrow> 'v jsval \<Rightarrow> 'v values_object \<Rightarrow> 'v values_object \<times> 'v values_object cleanup" where
  "useCapturedState_effect_part001 inProvider name defaultValue st =
     (contextUpdateKey_part001 inProvider name defaultValue st, None)"

definition useCapturedState_part001 ::
  "bool \<Rightarrow> key \<Rightarrow> 'v jsval \<Rightarrow> 'v values_object \<Rightarrow> 'v field_part001 \<times> 'v values_object" where
  "useCapturedState_part001 inProvider name defaultValue st =
     (let (st', c) = useCapturedState_effect_part001 inProvider name defaultValue st
      in (\<lparr>field_name_part001 = name, defaultValue_part001 = defaultValue,
            effect_cleanup_part001 = c\<rparr>, st'))"

definition setValue_part001 ::
  "bool \<Rightarrow> 'v jsval \<Rightarrow> 'v field_part001 \<times> 'v values_object \<Rightarrow>
     'v field_part001 \<times> 'v values_object" where
  "setValue_part001 inProvider val fs =
     (let (f, st) = fs
      in (f, contextUpdateKey_part001 inProvider (field_name_part001 f) val st))"

definition unmount_part001 :: "'v field_part001 \<Rightarrow> 'v values_object \<Rightarrow> 'v values_object" where
  "unmount_part001 f st = run_cleanup (effect_cleanup_part001 f) st"

subsection \<open>The first implementation (\<^verbatim>\<open>src/unnamed/part_002\<close>)\<close>

text \<open>
  Its provider value has \<^verbatim>\<open>updateKey\<close> and \<^verbatim>\<open>values\<close> only; the field hook is written as in
  the implementation above.
\<close>

definition updateKey_part002 :: "key \<Rightarrow> 'v jsval \<Rightarrow> 'v values_object \<Rightarrow> 'v values_object" where
  "updateKey_part002 k v oldState = (let newValue = spread oldState in assign k v newValue)"

record 'v field_part002 =
  field_name_part002 :: key
  defaultValue_part002 :: "'v jsval"
  effect_cleanup_part002 :: "'v values_object cleanup"

definition contextUpdateKey_part002 ::
  "bool \<Rightarrow> key \<Rightarrow> 'v jsval \<Rightarrow> 'v values_object \<Rightarrow> 'v values_object" where
  "contextUpdateKey_part002 inProvider k v st =
     (if inProvider then updateKey_part002 k v st else st)"

definition useCapturedState_effect_part002 ::
  "bool \<Rightarrow> key \<Rightarrow> 'v jsval \<Rightarrow> 'v values_object \<Rightarrow> 'v values_object \<times> 'v values_object cleanup" where
  "useCapturedState_effect_part002 inProvider name defaultValue st =
     (contextUpdateKey_part002 inProvider name defaultValue st, None)"

definition useCapturedState_part002 ::
  "bool \<Rightarrow> key \<Rightarrow> 'v jsval \<Rightarrow> 'v values_object \<Rightarrow> 'v field_part002 \<times> 'v values_object" where
  "useCapturedState_part002 inProvider name defaultValue st =
     (let (st', c) = useCapturedState_effect_part002 inProvider name defaultValue st
      in (\<lparr>field_name_part002 = name, defaultValue_part002 = defaultValue,
            effect_cleanup_part002 = c\<rparr>, st'))"

definition setValue_part002 ::
  "bool \<Rightarrow> 'v jsval \<Rightarrow> 'v field_part002 \<times> 'v values_object \<Rightarrow>
     'v field_part002 \<times> 'v values_object" where
  "setValue_part002 inProvider val fs =
     (let (f, st) = fs
      in (f, contextUpdateKey_part002 inProvider (field_name_part002 f) val st))"

definition unmount_part002 :: "'v field_part002 \<Rightarrow> 'v values_object \<Rightarrow> 'v values_object" where
  "unmount_part002 f st = run_cleanup (effect_cleanup_part002 f) st"

section \<open>Properties of the store\<close>

subsection \<open>Objects\<close>

lemma find_property_own: "own_props k = Some v \<Longrightarrow> find_property own_props p k = Own_data v"
  by (simp add: find_property_def)

lemma find_property_accessor:
  "find_property own_props p k = Proto_accessor \<Longrightarrow> k = ''__proto__''"
  by (auto simp: find_property_def find_in_prototype_def find_in_Object_prototype_def
           split: option.splits prototype.splits if_splits)

lemma assign_stores:
  assumes "k \<noteq> ''__proto__''"
  shows "assign k v obj = obj\<lparr>own := (own obj)(k \<mapsto> v)\<rparr>"
proof (cases "find_property (own obj) (proto obj) k")
  case Proto_accessor
  with assms show ?thesis by (auto dest: find_property_accessor)
qed (simp_all add: assign_def)



lemma has_property_own: "own obj k = Some v \<Longrightarrow> has_property obj k"
  by (simp add: has_property_def find_property_own)

lemma has_property_absent: "\<not> has_property obj k \<Longrightarrow> own obj k = None"
  by (cases "own obj k") (simp_all add: has_property_own)

lemma delete_property_absent: "own obj k = None \<Longrightarrow> delete_property k obj = obj"
  by (simp add: delete_property_def fun_upd_idem)

lemma has_property_delete_other:
  "k \<noteq> a \<Longrightarrow> has_property (delete_property a obj) k = has_property obj k"
  by (simp add: has_property_def delete_property_def find_property_def)

lemma has_property_delete:
  "has_property (delete_property a obj) k \<Longrightarrow> has_property obj k"
  by (cases "k = a"; cases "own obj k")
     (simp_all add: has_property_def delete_property_def find_property_def)

subsection \<open>\<^verbatim>\<open>updateKey\<close>\<close>

lemma makeStale_simps [simp]:
  "staleState (makeStale s)" "values (makeStale s) = values s"
  "render_state (makeStale s) = render_state s"
  "setRender_calls (makeStale s) = setRender_calls s"
  by (simp_all add: makeStale_def)

lemma updateKey_simps:
  "fst (updateKey k v s) = Undefined"
  "values (snd (updateKey k v s)) = assign k v (values s)"
  "staleState (snd (updateKey k v s))"
  "render_state (snd (updateKey k v s)) = render_state s"
  "setRender_calls (snd (updateKey k v s)) = setRender_calls s"
  by (simp_all add: updateKey_def Let_def)




subsection \<open>\<^verbatim>\<open>batchUpdateKeys\<close>\<close>





lemma loop_staleState:
  "staleState s \<Longrightarrow> staleState (snd (batchUpdateKeys_loop m ks s))"
  by (induction ks arbitrary: s)
     (simp_all add: updateKey_simps split: sum.splits option.splits)

lemma batchUpdateKeys_snd:
  "snd (batchUpdateKeys m s) = snd (batchUpdateKeys_loop m (for_in_keys m) (makeStale s))"
  by (simp add: batchUpdateKeys_def Let_def split: prod.splits option.splits)


lemma batchUpdateKeys_staleState: "staleState (snd (batchUpdateKeys m s))"
  by (simp add: batchUpdateKeys_snd loop_staleState)





subsection \<open>\<^verbatim>\<open>removeKey\<close> and \<^verbatim>\<open>batchRemoveKeys\<close>\<close>

lemma removeKey_simps:
  "fst (removeKey k s) = Undefined"
  "values (snd (removeKey k s)) = delete_property k (values s)"
  "staleState (snd (removeKey k s)) = (staleState s \<or> has_property (values s) k)"
  "render_state (snd (removeKey k s)) = render_state s"
  "setRender_calls (snd (removeKey k s)) = setRender_calls s"
  by (auto simp: removeKey_def Let_def delete_property_absent has_property_absent)




lemma fold_delete_own:
  "own (fold delete_property ks obj) k = (if k \<in> set ks then None else own obj k)"
  by (induction ks arbitrary: obj) (simp_all add: delete_property_def)

lemma fold_delete_proto: "proto (fold delete_property ks obj) = proto obj"
  by (induction ks arbitrary: obj) (simp_all add: delete_property_def)

lemma fold_delete_set:
  assumes "set ks = set ks'"
  shows "fold delete_property ks obj = fold delete_property ks' obj"
proof (rule values_object.equality)
  show "own (fold delete_property ks obj) = own (fold delete_property ks' obj)"
    using assms by (simp add: fun_eq_iff fold_delete_own)
qed (simp_all add: fold_delete_proto)

lemma fold_removeKey_values:
  "values (fold (\<lambda>k s'. snd (removeKey k s')) ks s) = fold delete_property ks (values s)"
  by (induction ks arbitrary: s) (simp_all add: removeKey_simps)

lemma fold_removeKey_staleState:
  "staleState (fold (\<lambda>k s'. snd (removeKey k s')) ks s) =
     (staleState s \<or> (\<exists>k \<in> set ks. has_property (values s) k))"
proof (induction ks arbitrary: s)
  case Nil
  show ?case by simp
next
  case (Cons a ks)
  have "staleState (fold (\<lambda>k s'. snd (removeKey k s')) (a # ks) s) =
        ((staleState s \<or> has_property (values s) a) \<or>
         (\<exists>k \<in> set ks. has_property (delete_property a (values s)) k))"
    by (simp only: fold_simps Cons.IH removeKey_simps)
  also have "\<dots> = (staleState s \<or> (\<exists>k \<in> set (a # ks). has_property (values s) k))"
  proof (cases "has_property (values s) a")
    case True
    then show ?thesis by simp
  next
    case False
    have "\<And>k. has_property (delete_property a (values s)) k = has_property (values s) k"
    proof -
      fix k
      show "has_property (delete_property a (values s)) k = has_property (values s) k"
      proof (cases "k = a")
        case True
        from False have "own (values s) a = None" by (rule has_property_absent)
        with True show ?thesis by (simp add: delete_property_absent)
      next
        case False
        then show ?thesis by (rule has_property_delete_other)
      qed
    qed
    with False show ?thesis by simp
  qed
  finally show ?case .
qed

lemma fold_removeKey_render:
  "render_state (fold (\<lambda>k s'. snd (removeKey k s')) ks s) = render_state s"
  "setRender_calls (fold (\<lambda>k s'. snd (removeKey k s')) ks s) = setRender_calls s"
  by (induction ks arbitrary: s) (simp_all add: removeKey_simps)

lemma fold_removeKey_set:
  assumes "set ks = set ks'"
  shows "fold (\<lambda>k s'. snd (removeKey k s')) ks s = fold (\<lambda>k s'. snd (removeKey k s')) ks' s"
proof (rule store.equality)
  show "values (fold (\<lambda>k s'. snd (removeKey k s')) ks s) =
        values (fold (\<lambda>k s'. snd (removeKey k s')) ks' s)"
    using assms by (simp add: fold_removeKey_values fold_delete_set [of ks ks'])
  show "staleState (fold (\<lambda>k s'. snd (removeKey k s')) ks s) =
        staleState (fold (\<lambda>k s'. snd (removeKey k s')) ks' s)"
    using assms by (simp add: fold_removeKey_staleState)
qed (simp_all add: fold_removeKey_render)

text \<open>
  Claim C8.  \<^verbatim>\<open>batchRemoveKeys\<close> leaves the same store for a list of keys and for any
  permutation of it, returns the same value for both, and what it returns is the
  captured values object as it is after the removals.
\<close>

theorem batchRemoveKeys_permutation:
  "mset keyList = mset keyList' \<Longrightarrow>
     snd (batchRemoveKeys keyList s) = snd (batchRemoveKeys keyList' s)
     \<and> fst (batchRemoveKeys keyList s) = fst (batchRemoveKeys keyList' s)
     \<and> fst (batchRemoveKeys keyList s) = Object (values (snd (batchRemoveKeys keyList s)))"
proof -
  assume "mset keyList = mset keyList'"
  then have "set keyList = set keyList'"
    by (rule mset_eq_setD)
  then show ?thesis
    by (simp add: batchRemoveKeys_def Let_def fold_removeKey_set [of keyList keyList'] getValues_def)
qed

theorem batchRemoveKeys_permutation_witness:
  "mset [''first'', ''second''] = mset [''second'', ''first'']
   \<and> snd (batchRemoveKeys [''first'', ''second'']
         (snd (updateKey ''first'' (Prim ''A'') useCapturedProviderValue_init)))
     = snd (batchRemoveKeys [''second'', ''first'']
         (snd (updateKey ''first'' (Prim ''A'') useCapturedProviderValue_init)))
   \<and> own (values (snd (batchRemoveKeys [''second'', ''first'']
         (snd (updateKey ''first'' (Prim ''A'') useCapturedProviderValue_init))))) ''first'' = None"
  using batchRemoveKeys_permutation
    [of "[''first'', ''second'']" "[''second'', ''first'']"
        "snd (updateKey ''first'' (Prim ''A'') useCapturedProviderValue_init)"]
  by (simp add: batchRemoveKeys_def Let_def removeKey_simps delete_property_def)

subsection \<open>\<^verbatim>\<open>forceRerender\<close>\<close>

lemma forceRerender_unchanged:
  "smart \<Longrightarrow> \<not> staleState s \<Longrightarrow> forceRerender render smart s = (Undefined, s)"
  by (simp add: forceRerender_def)

lemma forceRerender_calls:
  "\<not> smart \<or> staleState s \<Longrightarrow>
     snd (forceRerender render smart s) = setRender (\<not> render) s"
  by (auto simp: forceRerender_def)

lemma reconcile_setRender:
  "reconcile (setRender b s) =
     (b \<noteq> render_state s, s\<lparr>render_state := b, setRender_calls := []\<rparr>)"
proof (cases "setRender_calls s @ [b]")
  case Nil
  then show ?thesis by simp
next
  case (Cons c cs)
  have "last (setRender_calls s @ [b]) = b" by simp
  with Cons have "last (c # cs) = b" by simp
  with Cons show ?thesis
    by (simp add: reconcile_def setRender_def)
qed

lemma forceRerender_reconciles:
  "\<not> smart \<or> staleState s \<Longrightarrow>
     fst (reconcile (snd (forceRerender render smart s))) = (render = render_state s)"
  by (simp only: forceRerender_calls reconcile_setRender) auto

lemma forceRerender_staleState:
  "staleState (snd (forceRerender render smart s)) = staleState s"
  by (simp add: forceRerender_def setRender_def)

lemma reconcile_staleState:
  "staleState (snd (reconcile s)) = staleState s"
  by (simp add: reconcile_def split: list.splits)

text \<open>
  Claim C7 says that \<^verbatim>\<open>forceRerender(false)\<close> triggers a reconciliation whatever the state,
  and \<^verbatim>\<open>forceRerender(true)\<close> whenever the store is stale.  The closure calls
  \<^verbatim>\<open>setRender(!render)\<close> with the constant of its own render.  From the initial store, a
  first \<^verbatim>\<open>forceRerender(false)\<close> leads to a render, after which React holds \<^verbatim>\<open>true\<close>.
  Called again through the bundle of the first render, \<^verbatim>\<open>forceRerender(false)\<close> sets
  \<^verbatim>\<open>true\<close> once more and no render follows; the same holds for \<^verbatim>\<open>forceRerender(true)\<close> on
  the store made stale by \<^verbatim>\<open>updateKey("first", "A")\<close>.
\<close>

theorem forceRerender_kept_bundle_no_render:
  "fst (reconcile (snd (forceRerender False False
      (useCapturedProviderValue_init :: string store))))
   \<and> render_state (snd (reconcile (snd (forceRerender False False
      (useCapturedProviderValue_init :: string store))))) = True
   \<and> setRender_calls (snd (forceRerender False False (snd (reconcile (snd (forceRerender False False
      (useCapturedProviderValue_init :: string store))))))) = [True]
   \<and> \<not> fst (reconcile (snd (forceRerender False False (snd (reconcile (snd (forceRerender False False
      (useCapturedProviderValue_init :: string store))))))))
   \<and> staleState (snd (updateKey ''first'' (Prim ''A'') (snd (reconcile (snd (forceRerender False False
      (useCapturedProviderValue_init :: string store)))))))
   \<and> \<not> fst (reconcile (snd (forceRerender False True
      (snd (updateKey ''first'' (Prim ''A'') (snd (reconcile (snd (forceRerender False False
      (useCapturedProviderValue_init :: string store))))))))))"
  by (simp add: useCapturedProviderValue_init_def forceRerender_def setRender_def reconcile_def
        updateKey_def Let_def makeStale_def)

text \<open>
  Claim C10 says that after \<^verbatim>\<open>batchUpdateKeys\<close> of an object without properties a
  \<^verbatim>\<open>forceRerender(true)\<close> triggers a reconciliation.  The call leaves the captured values
  as they were and marks the store stale, so \<^verbatim>\<open>forceRerender(true)\<close> does call \<^verbatim>\<open>setRender\<close>;
  through the bundle of an earlier render it sets the value React already holds, and no
  render follows.
\<close>

theorem batchUpdateKeys_empty_kept_bundle_no_render:
  "\<not> staleState (snd (reconcile (snd (forceRerender False False
      (useCapturedProviderValue_init :: string store)))))
   \<and> fst (batchUpdateKeys (plain []) (snd (reconcile (snd (forceRerender False False
      (useCapturedProviderValue_init :: string store))))))
     = Inr (Object empty_object)
   \<and> values (snd (batchUpdateKeys (plain []) (snd (reconcile (snd (forceRerender False False
      (useCapturedProviderValue_init :: string store)))))))
     = values (snd (reconcile (snd (forceRerender False False
      (useCapturedProviderValue_init :: string store)))))
   \<and> staleState (snd (batchUpdateKeys (plain []) (snd (reconcile (snd (forceRerender False False
      (useCapturedProviderValue_init :: string store)))))))
   \<and> setRender_calls (snd (forceRerender False True
      (snd (batchUpdateKeys (plain []) (snd (reconcile (snd (forceRerender False False
      (useCapturedProviderValue_init :: string store))))))))) = [True]
   \<and> \<not> fst (reconcile (snd (forceRerender False True
      (snd (batchUpdateKeys (plain []) (snd (reconcile (snd (forceRerender False False
      (useCapturedProviderValue_init :: string store))))))))))"
  by (simp add: useCapturedProviderValue_init_def forceRerender_def setRender_def reconcile_def
        batchUpdateKeys_def Let_def makeStale_def plain_def for_in_keys_def getValues_def)

lemma batchUpdateKeys_empty:
  "props m = [] \<Longrightarrow> props_proto m = Object_prototype \<Longrightarrow>
     snd (batchUpdateKeys m s) = makeStale s"
  by (simp add: batchUpdateKeys_def Let_def for_in_keys_def)

subsection \<open>The stale flag is never reset\<close>

lemma apply_operation_staleState:
  "staleState s \<Longrightarrow> staleState (apply_operation operation s)"
  by (cases operation)
     (simp_all add: updateKey_simps batchUpdateKeys_staleState removeKey_simps
        batchRemoveKeys_def Let_def fold_removeKey_staleState forceRerender_staleState
        reconcile_staleState)

lemma run_staleState: "staleState s \<Longrightarrow> staleState (run ops s)"
  unfolding run_def
  by (induction ops arbitrary: s) (simp_all add: apply_operation_staleState)

lemma forceRerender_after_run:
  "staleState s \<Longrightarrow>
     fst (reconcile (snd (forceRerender (render_state (run ops s)) True (run ops s))))"
  by (simp add: forceRerender_reconciles run_staleState)

text \<open>
  Claim C1 says that a forced reconciliation clears the stale flag, so that a further
  \<^verbatim>\<open>forceRerender(true)\<close> without a mutation in between does nothing.  The code has no
  statement that resets \<^verbatim>\<open>staleState.current\<close>.  From the initial store, after
  \<^verbatim>\<open>updateKey("first", "A")\<close>: \<^verbatim>\<open>forceRerender(true)\<close> leads to a render; after that render
  the flag is still set; \<^verbatim>\<open>forceRerender(true)\<close> of the new bundle is not without effect,
  and it leads to a second render.
\<close>

theorem forceRerender_twice_still_stale:
  "fst (reconcile (snd (forceRerender False True
         (snd (updateKey ''first'' (Prim ''A'') useCapturedProviderValue_init)))))
   \<and> render_state (snd (reconcile (snd (forceRerender False True
         (snd (updateKey ''first'' (Prim ''A'') useCapturedProviderValue_init))))))
   \<and> staleState (snd (reconcile (snd (forceRerender False True
         (snd (updateKey ''first'' (Prim ''A'') useCapturedProviderValue_init))))))
   \<and> forceRerender True True (snd (reconcile (snd (forceRerender False True
         (snd (updateKey ''first'' (Prim ''A'') useCapturedProviderValue_init))))))
       \<noteq> (Undefined, snd (reconcile (snd (forceRerender False True
         (snd (updateKey ''first'' (Prim ''A'') useCapturedProviderValue_init))))))
   \<and> fst (reconcile (snd (forceRerender True True (snd (reconcile (snd (forceRerender False True
         (snd (updateKey ''first'' (Prim ''A'') useCapturedProviderValue_init)))))))))"
  by (simp add: updateKey_def Let_def useCapturedProviderValue_init_def forceRerender_def
        setRender_def reconcile_def makeStale_def)

subsection \<open>The default context value\<close>

text \<open>
  Claim C5 says that outside every provider the mutation functions do nothing and the
  read function returns an empty mapping.  The five mutation functions of
  \<^verbatim>\<open>captureDefaultValue\<close> indeed return \<^verbatim>\<open>undefined\<close> and change nothing, but so does
  \<^verbatim>\<open>getValues: () => {}\<close>: \<^verbatim>\<open>useCapturedValues()\<close> is \<^verbatim>\<open>undefined\<close>, which is not the empty
  object, and reading any key of it raises a \<^verbatim>\<open>TypeError\<close>.
\<close>

theorem default_getValues_undefined:
  "useCapturedValues None s = Undefined
   \<and> useCapturedValues None s \<noteq> Object empty_object
   \<and> get_property (useCapturedValues None s) k = Inl TypeError
   \<and> ctx_updateKey (useCaptureContextValue None) k v s = (Undefined, s)
   \<and> ctx_batchUpdateKeys (useCaptureContextValue None) m s = (Inr Undefined, s)
   \<and> ctx_removeKey (useCaptureContextValue None) k s = (Undefined, s)
   \<and> ctx_batchRemoveKeys (useCaptureContextValue None) ks s = (Undefined, s)
   \<and> ctx_forceRerender (useCaptureContextValue None) smart s = (Undefined, s)"
  by (simp add: useCapturedValues_def useCaptureContextValue_def captureDefaultValue_def
        get_property_def)

subsection \<open>The implementation on \<^verbatim>\<open>useState\<close>\<close>

text \<open>
  Claim C6 says that no operation of any implementation can raise.  In
  \<^verbatim>\<open>src/unnamed/part_001\<close> the state update of \<^verbatim>\<open>batchUpdateKeys\<close> raises a \<^verbatim>\<open>TypeError\<close> for
  every object literal, whatever its properties and whatever the old state: the loop is
  written with \<^verbatim>\<open>of\<close> where \<^verbatim>\<open>src/lib/index.js\<close> has \<^verbatim>\<open>in\<close>.
\<close>

theorem batchUpdateKeys_part001_raises:
  "batchUpdateKeys_part001 (plain kvs) oldState = Inl TypeError"
  by (simp add: batchUpdateKeys_part001_def plain_def)

subsection \<open>Unmounting a field\<close>

lemma setCapturedState_cleanup:
  "effect_cleanup (fst fs) = None \<Longrightarrow>
     effect_cleanup (fst (setCapturedState nearest v fs)) = None"
  by (cases fs) (simp add: setCapturedState_def Let_def useCapturedState_effect_def)

lemma useCapturedState_cleanup:
  "effect_cleanup (fst (useCapturedState nearest name d s)) = None"
  by (simp add: useCapturedState_def Let_def useCapturedState_effect_def)

lemma fold_setCapturedState_cleanup:
  "effect_cleanup (fst fs) = None \<Longrightarrow>
     effect_cleanup (fst (fold (setCapturedState nearest) vs fs)) = None"
  by (induction vs arbitrary: fs) (simp_all add: setCapturedState_cleanup)

lemma setValue_part001_cleanup:
  "effect_cleanup_part001 (fst (fold (setValue_part001 p) vs fs)) =
     effect_cleanup_part001 (fst fs)"
  by (induction vs arbitrary: fs) (simp_all add: setValue_part001_def split_beta)

lemma setValue_part002_cleanup:
  "effect_cleanup_part002 (fst (fold (setValue_part002 p) vs fs)) =
     effect_cleanup_part002 (fst fs)"
  by (induction vs arbitrary: fs) (simp_all add: setValue_part002_def split_beta)

text \<open>
  Claim C9.  In each of the three implementations, a field that was mounted and whose
  value was then set any number of times holds no cleanup for React to call: unmounting
  it leaves every store as it is, the field's own key and value included.
\<close>

theorem unmount_keeps_store:
  "unmount (fst (fold (setCapturedState nearest) vs (useCapturedState nearest name d s))) s' = s'
   \<and> unmount_part001
        (fst (fold (setValue_part001 p) vs (useCapturedState_part001 p name d st))) st' = st'
   \<and> unmount_part002
        (fst (fold (setValue_part002 p) vs (useCapturedState_part002 p name d st))) st' = st'"
proof (intro conjI)
  show "unmount (fst (fold (setCapturedState nearest) vs (useCapturedState nearest name d s))) s'
          = s'"
    by (simp add: unmount_def run_cleanup_def fold_setCapturedState_cleanup
          useCapturedState_cleanup)
  show "unmount_part001
          (fst (fold (setValue_part001 p) vs (useCapturedState_part001 p name d st))) st' = st'"
    by (simp add: unmount_part001_def run_cleanup_def setValue_part001_cleanup
          useCapturedState_part001_def useCapturedState_effect_part001_def)
  show "unmount_part002
          (fst (fold (setValue_part002 p) vs (useCapturedState_part002 p name d st))) st' = st'"
    by (simp add: unmount_part002_def run_cleanup_def setValue_part002_cleanup
          useCapturedState_part002_def useCapturedState_effect_part002_def)
qed

theorem unmount_keeps_store_witness:
  "own (values (unmount
      (fst (fold (setCapturedState (Some (useCapturedProviderValue False))) [Prim ''B'']
         (useCapturedState (Some (useCapturedProviderValue False)) ''second'' (Prim [])
            useCapturedProviderValue_init)))
      (snd (fold (setCapturedState (Some (useCapturedProviderValue False))) [Prim ''B'']
         (useCapturedState (Some (useCapturedProviderValue False)) ''second'' (Prim [])
            useCapturedProviderValue_init)))))
     ''second'' = Some (Prim ''B'')
   \<and> own (unmount_part001
        (fst (fold (setValue_part001 True) [Prim ''B'']
           (useCapturedState_part001 True ''second'' (Prim []) empty_object)))
        (snd (fold (setValue_part001 True) [Prim ''B'']
           (useCapturedState_part001 True ''second'' (Prim []) empty_object)))) ''second''
     = Some (Prim ''B'')
   \<and> own (unmount_part002
        (fst (fold (setValue_part002 True) [Prim ''B'']
           (useCapturedState_part002 True ''second'' (Prim []) empty_object)))
        (snd (fold (setValue_part002 True) [Prim ''B'']
           (useCapturedState_part002 True ''second'' (Prim []) empty_object)))) ''second''
     = Some (Prim ''B'')"
  using unmount_keeps_store
    [where nearest = "Some (useCapturedProviderValue False)" and vs = "[Prim ''B'']"
       and name = "''second''" and d = "Prim []" and s = useCapturedProviderValue_init
       and p = True and st = empty_object
       and s' = "snd (fold (setCapturedState (Some (useCapturedProviderValue False))) [Prim ''B'']
         (useCapturedState (Some (useCapturedProviderValue False)) ''second'' (Prim [])
            useCapturedProviderValue_init))"
       and st' = "snd (fold (setValue_part001 True) [Prim ''B'']
           (useCapturedState_part001 True ''second'' (Prim []) empty_object))"]
  by (simp add: useCapturedState_def setCapturedState_def useCapturedState_effect_def
        useCaptureContextValue_def useCapturedProviderValue_def updateKey_simps run_cleanup_def
        useCapturedState_part001_def useCapturedState_effect_part001_def setValue_part001_def
        contextUpdateKey_part001_def updateKey_part001_def
        useCapturedState_part002_def useCapturedState_effect_part002_def setValue_part002_def
        contextUpdateKey_part002_def updateKey_part002_def unmount_part002_def Let_def
        assign_stores spread_def)

end
